theory Spec2Isabelle
  imports Main "HOL-Library.Multiset"
begin

section \<open>Data model: identifiers, types, expressions, symbols\<close>

text \<open>
  Identifiers (\<^verbatim>\<open>irep_idt\<close>) are strings. The constants below are the identifiers
  the modelled functions compare against.
\<close>

type_synonym irep_idt = string

definition ID_struct :: irep_idt where "ID_struct = ''struct''"
definition ID_union :: irep_idt where "ID_union = ''union''"
definition ID_code :: irep_idt where "ID_code = ''code''"
definition ID_assign :: irep_idt where "ID_assign = ''assign''"
definition ID_nil :: irep_idt where "ID_nil = ''nil''"

text \<open>
  Modelled from the spec: the declarations of \<^verbatim>\<open>irept\<close>, \<^verbatim>\<open>typet\<close>,
  \<^verbatim>\<open>exprt\<close> and of the components of a struct (irep.h, type.h, expr.h, std_types.h)
  are not among the sources. The model has the kinds of type and of expression that the
  sources and the specification name, restricted to the attributes that the modelled
  functions read or write. A struct or union type carries its \<^verbatim>\<open>is_template\<close>
  attribute, its \<^verbatim>\<open>components\<close> and its \<^verbatim>\<open>methods\<close> sub-tree (empty when the
  type has none); a code type carries its \<^verbatim>\<open>is_template\<close> attribute. A component
  carries its name, its type and the attributes \<^verbatim>\<open>is_static\<close> and
  \<^verbatim>\<open>is_type\<close>. The size of an array type is an expression. Equality of types is
  structural.
\<close>

datatype typet =
    nil_typet
  | bool_typet
  | signedbv_typet nat
  | unsignedbv_typet nat
  | bv_typet nat
  | pointer_typet typet
  | code_typet bool
  | struct_tag_typet irep_idt
  | array_typet typet exprt
  | struct_typet bool "componentt list" "componentt list"
  | union_typet bool "componentt list" "componentt list"
and exprt =
    nil_exprt
  | constant_exprt irep_idt typet
  | symbol_exprt irep_idt typet
  | expr irep_idt typet "exprt list"
and componentt =
    componentt irep_idt typet bool bool

fun type_id :: "typet \<Rightarrow> irep_idt" where
  "type_id nil_typet = ID_nil"
| "type_id bool_typet = ''bool''"
| "type_id (signedbv_typet _) = ''signedbv''"
| "type_id (unsignedbv_typet _) = ''unsignedbv''"
| "type_id (bv_typet _) = ''bv''"
| "type_id (pointer_typet _) = ''pointer''"
| "type_id (code_typet _) = ID_code"
| "type_id (struct_tag_typet _) = ''struct_tag''"
| "type_id (array_typet _ _) = ''array''"
| "type_id (struct_typet _ _ _) = ID_struct"
| "type_id (union_typet _ _ _) = ID_union"

fun is_template :: "typet \<Rightarrow> bool" where
  "is_template (code_typet b) = b"
| "is_template (struct_typet b _ _) = b"
| "is_template (union_typet b _ _) = b"
| "is_template _ = False"

fun components :: "typet \<Rightarrow> componentt list" where
  "components (struct_typet _ cs _) = cs"
| "components (union_typet _ cs _) = cs"
| "components _ = []"

fun methods :: "typet \<Rightarrow> componentt list" where
  "methods (struct_typet _ _ ms) = ms"
| "methods (union_typet _ _ ms) = ms"
| "methods _ = []"

fun get_name :: "componentt \<Rightarrow> irep_idt" where
  "get_name (componentt n _ _ _) = n"

fun comp_type :: "componentt \<Rightarrow> typet" where
  "comp_type (componentt _ t _ _) = t"

fun is_static :: "componentt \<Rightarrow> bool" where
  "is_static (componentt _ _ s _) = s"

fun is_type :: "componentt \<Rightarrow> bool" where
  "is_type (componentt _ _ _ ty) = ty"

fun expr_type :: "exprt \<Rightarrow> typet" where
  "expr_type nil_exprt = nil_typet"
| "expr_type (constant_exprt _ t) = t"
| "expr_type (symbol_exprt _ t) = t"
| "expr_type (expr _ t _) = t"

record symbolt =
  name :: irep_idt
  type :: typet

type_synonym symbol_tablet = "(irep_idt \<times> symbolt) list"

section \<open>C++ type checking: \<^verbatim>\<open>cpp_typecheckt::clean_up\<close>\<close>

text \<open>
  The loop over the components of one struct or union type. \<open>dm\<close> is
  \<^verbatim>\<open>data_members\<close>, \<open>fm\<close> is \<^verbatim>\<open>function_members\<close>, the sub-tree
  \<^verbatim>\<open>methods\<close> of the type: \<^verbatim>\<open>push_back\<close> appends at the end.
\<close>

fun split_components ::
  "componentt list \<Rightarrow> componentt list \<Rightarrow> componentt list \<Rightarrow> componentt list \<times> componentt list"
where
  "split_components [] dm fm = (dm, fm)"
| "split_components (c # cs) dm fm =
     (if is_static c \<or> is_type c then split_components cs dm fm
      else if type_id (comp_type c) = ID_code then split_components cs dm (fm @ [c])
      else split_components cs (dm @ [c]) fm)"

text \<open>
  The branch for a struct or union type. \<^verbatim>\<open>function_members\<close> is a reference to
  the sub-tree that \<^verbatim>\<open>add(ID_methods)\<close> yields, which is the type's
  \<^verbatim>\<open>methods\<close> sub-tree as it is (a new, empty one only when the type has none); the
  code does not clear it. \<^verbatim>\<open>data_members\<close> starts empty and is swapped into the
  components at the end.
\<close>

fun remove_methods :: "typet \<Rightarrow> typet" where
  "remove_methods (struct_typet tm cs ms) =
     (case split_components cs [] ms of (dm, fm) \<Rightarrow> struct_typet tm dm fm)"
| "remove_methods (union_typet tm cs ms) =
     (case split_components cs [] ms of (dm, fm) \<Rightarrow> union_typet tm dm fm)"
| "remove_methods t = t"

text \<open>
  The loop over the symbol table. \<open>deferred\<close> is \<^verbatim>\<open>deferred_typechecking\<close>.
  A template or a symbol whose checking was deferred is erased; a struct or union symbol
  that stays has the methods removed from its components; any other symbol is unchanged.
\<close>

fun clean_up :: "irep_idt set \<Rightarrow> symbol_tablet \<Rightarrow> symbol_tablet" where
  "clean_up deferred [] = []"
| "clean_up deferred ((key, symbol) # rest) =
     (if is_template (type symbol) \<or> name symbol \<in> deferred
      then clean_up deferred rest
      else if type_id (type symbol) = ID_struct \<or> type_id (type symbol) = ID_union
      then (key, symbol\<lparr>type := remove_methods (type symbol)\<rparr>) # clean_up deferred rest
      else (key, symbol) # clean_up deferred rest)"

definition survives :: "irep_idt set \<Rightarrow> symbolt \<Rightarrow> bool" where
  "survives deferred symbol \<longleftrightarrow> \<not> (is_template (type symbol) \<or> name symbol \<in> deferred)"

definition is_data_member :: "componentt \<Rightarrow> bool" where
  "is_data_member c \<longleftrightarrow> \<not> is_static c \<and> \<not> is_type c \<and> type_id (comp_type c) \<noteq> ID_code"

definition is_function_member :: "componentt \<Rightarrow> bool" where
  "is_function_member c \<longleftrightarrow> \<not> is_static c \<and> \<not> is_type c \<and> type_id (comp_type c) = ID_code"

text \<open>What \<^verbatim>\<open>clean_up\<close> does to a symbol that it keeps.\<close>

definition clean_symbol :: "symbolt \<Rightarrow> symbolt" where
  "clean_symbol symbol =
     (if type_id (type symbol) = ID_struct \<or> type_id (type symbol) = ID_union
      then symbol\<lparr>type := remove_methods (type symbol)\<rparr> else symbol)"

text \<open>
  A class as the front end leaves it, with the member functions among its components,
  and the same class after \<^verbatim>\<open>clean_up\<close>.
\<close>

definition example_class :: symbolt where
  "example_class =
     \<lparr>name = ''S'',
      type = struct_typet False
               [componentt ''x'' (signedbv_typet 32) False False,
                componentt ''f'' (code_typet False) False False,
                componentt ''s'' (signedbv_typet 32) True False,
                componentt ''T'' (signedbv_typet 32) False True,
                componentt ''y'' bool_typet False False,
                componentt ''g'' (code_typet False) False False] []\<rparr>"

definition cleaned_class :: symbolt where
  "cleaned_class =
     \<lparr>name = ''S'',
      type = struct_typet False
               [componentt ''x'' (signedbv_typet 32) False False,
                componentt ''y'' bool_typet False False]
               [componentt ''f'' (code_typet False) False False,
                componentt ''g'' (code_typet False) False False]\<rparr>"

section \<open>Instruction code: \<^verbatim>\<open>code_assignt\<close>\<close>

text \<open>
  A \<^verbatim>\<open>codet\<close> is a statement identifier with its operands. The two public
  constructors of \<^verbatim>\<open>code_assignt\<close> build a statement \<^verbatim>\<open>ID_assign\<close> with
  two operands; the default constructor resizes the operands to two empty expressions.
\<close>

datatype codet = codet irep_idt "exprt list"

fun get_statement :: "codet \<Rightarrow> irep_idt" where
  "get_statement (codet s _) = s"

fun operands :: "codet \<Rightarrow> exprt list" where
  "operands (codet _ ops) = ops"

definition code_assignt :: "exprt \<Rightarrow> exprt \<Rightarrow> codet" where
  "code_assignt lhs rhs = codet ID_assign [lhs, rhs]"

definition code_assignt_default :: codet where
  "code_assignt_default = codet ID_assign [expr [] nil_typet [], expr [] nil_typet []]"

datatype validation_modet = INVARIANT | EXCEPTION

datatype validation_errort =
    invariant_violation string
  | incorrect_goto_program_exception string

text \<open>
  Modelled from the spec: the macro \<^verbatim>\<open>DATA_CHECK\<close> and \<^verbatim>\<open>validation_modet\<close>
  (validate.h) are not among the sources. A malformed instruction is a fatal input
  inconsistency: when the condition is false the check fails, as an invariant violation
  in mode \<^verbatim>\<open>INVARIANT\<close> and as an exception in mode \<^verbatim>\<open>EXCEPTION\<close>; when it is
  true the check passes and execution continues.
\<close>

definition DATA_CHECK :: "validation_modet \<Rightarrow> bool \<Rightarrow> string \<Rightarrow> validation_errort + unit" where
  "DATA_CHECK vm condition message =
     (if condition then Inr ()
      else (case vm of
              INVARIANT \<Rightarrow> Inl (invariant_violation message)
            | EXCEPTION \<Rightarrow> Inl (incorrect_goto_program_exception message)))"

definition code_assignt_check :: "codet \<Rightarrow> validation_modet \<Rightarrow> validation_errort + unit" where
  "code_assignt_check code vm =
     DATA_CHECK vm (length (operands code) = 2) ''assignment must have two operands''"

text \<open>
  \<^verbatim>\<open>code_assignt::validate\<close>: the namespace argument is unused. The operands are
  read only after \<^verbatim>\<open>check\<close> has passed, so both reads are in range.
\<close>

definition code_assignt_validate ::
  "codet \<Rightarrow> symbol_tablet \<Rightarrow> validation_modet \<Rightarrow> validation_errort + unit"
where
  "code_assignt_validate code ns vm =
     (case code_assignt_check code vm of
        Inl e \<Rightarrow> Inl e
      | Inr _ \<Rightarrow>
          DATA_CHECK vm
            (expr_type (operands code ! 0) = expr_type (operands code ! 1))
            ''lhs and rhs of assignment must have same type'')"

section \<open>Variable sensitivity: \<^verbatim>\<open>struct_abstract_objectt\<close>\<close>

text \<open>
  The members of the base class \<^verbatim>\<open>abstract_objectt\<close> are not among the sources, so
  an abstract object is represented by the arguments its base constructor received.
\<close>

datatype abstract_objectt =
    abstract_object_of_type typet
  | abstract_object_of_type_top_bottom typet bool bool
  | abstract_object_of_expr exprt

datatype assertion_failuret = assertion_failure string

text \<open>
  Modelled from the spec: the constructors of the base class (abstract_object.cpp) are
  not among the sources. The documentation of the three-argument constructor of
  \<^verbatim>\<open>struct_abstract_objectt\<close> states what its base constructor does: it starts the
  object at top, at bottom or at neither, and "asserts if both top and bottom are true".
  The other base constructors have no documented assertion.
\<close>

definition abstract_objectt_type_top_bottom ::
  "typet \<Rightarrow> bool \<Rightarrow> bool \<Rightarrow> assertion_failuret + abstract_objectt"
where
  "abstract_objectt_type_top_bottom t tp bttm =
     (if tp \<and> bttm then Inl (assertion_failure ''!(top && bottom)'')
      else Inr (abstract_object_of_type_top_bottom t tp bttm))"

text \<open>The four constructors, in the order of the source. The base constructor runs first.\<close>

definition struct_abstract_objectt_of_type ::
  "typet \<Rightarrow> assertion_failuret + abstract_objectt"
where
  "struct_abstract_objectt_of_type t =
     (if type_id t = ID_struct then Inr (abstract_object_of_type t)
      else Inl (assertion_failure ''t.id()==ID_struct''))"

definition struct_abstract_objectt_of_type_top_bottom ::
  "typet \<Rightarrow> bool \<Rightarrow> bool \<Rightarrow> assertion_failuret + abstract_objectt"
where
  "struct_abstract_objectt_of_type_top_bottom t tp bttm =
     (case abstract_objectt_type_top_bottom t tp bttm of
        Inl e \<Rightarrow> Inl e
      | Inr obj \<Rightarrow>
          if type_id t = ID_struct then Inr obj
          else Inl (assertion_failure ''t.id()==ID_struct''))"

definition struct_abstract_objectt_copy ::
  "abstract_objectt \<Rightarrow> assertion_failuret + abstract_objectt"
where
  "struct_abstract_objectt_copy old = Inr old"

definition struct_abstract_objectt_of_expr ::
  "exprt \<Rightarrow> assertion_failuret + abstract_objectt"
where
  "struct_abstract_objectt_of_expr e =
     (if type_id (expr_type e) = ID_struct then Inr (abstract_object_of_expr e)
      else Inl (assertion_failure ''e.type().id()==ID_struct''))"

text \<open>The objects that the constructors can build, the copy constructor included.\<close>

inductive constructed :: "abstract_objectt \<Rightarrow> bool" where
  of_type: "struct_abstract_objectt_of_type t = Inr obj \<Longrightarrow> constructed obj"
| of_type_top_bottom:
    "struct_abstract_objectt_of_type_top_bottom t tp bttm = Inr obj \<Longrightarrow> constructed obj"
| of_expr: "struct_abstract_objectt_of_expr e = Inr obj \<Longrightarrow> constructed obj"
| copy: "constructed old \<Longrightarrow> struct_abstract_objectt_copy old = Inr obj \<Longrightarrow> constructed obj"

fun object_type :: "abstract_objectt \<Rightarrow> typet" where
  "object_type (abstract_object_of_type t) = t"
| "object_type (abstract_object_of_type_top_bottom t _ _) = t"
| "object_type (abstract_object_of_expr e) = expr_type e"

section \<open>Type encoder: \<^verbatim>\<open>struct_encodingt::encode\<close>\<close>

datatype errort = InputInconsistencyError

text \<open>
  Modelled from the spec: \<^verbatim>\<open>namespacet\<close> (namespace.h) is not among the sources.
  The namespace resolves a struct tag, by one lookup in the symbol table, to the member
  list of the struct type stored under that name. A name that is absent, or that does not
  name a struct type, has no resolvable member list.
\<close>

definition follow_tag :: "symbol_tablet \<Rightarrow> irep_idt \<Rightarrow> componentt list option" where
  "follow_tag ns tag =
     (case map_of ns tag of
        None \<Rightarrow> None
      | Some symbol \<Rightarrow>
          (case type symbol of struct_typet _ cs _ \<Rightarrow> Some cs | _ \<Rightarrow> None))"

text \<open>
  The members are encoded in order; the first member that fails, or that does not return,
  decides the outcome. Otherwise the widths of the encoded member types are added up.
\<close>

fun sum_member_widths ::
  "(typet \<Rightarrow> nat) \<Rightarrow> (errort + typet) option list \<Rightarrow> (errort + nat) option"
where
  "sum_member_widths width [] = Some (Inr 0)"
| "sum_member_widths width (None # rs) = None"
| "sum_member_widths width (Some (Inl e) # rs) = Some (Inl e)"
| "sum_member_widths width (Some (Inr t) # rs) =
     (case sum_member_widths width rs of
        None \<Rightarrow> None
      | Some (Inl e) \<Rightarrow> Some (Inl e)
      | Some (Inr n) \<Rightarrow> Some (Inr (width t + n)))"

text \<open>
  Modelled from the spec: the body of \<^verbatim>\<open>struct_encodingt::encode\<close>
  (struct_encoding.cpp) is not among the sources; its unit tests are. The model follows
  section 4.1 of the specification: a struct tag is resolved to its member list, each
  member type is encoded, and the result is one bit-vector type whose width is the sum of
  the encoded member widths; an array type keeps its size expression over the encoded
  element type; every other type is returned unchanged; a tag with no resolvable member
  list is an input inconsistency. The width of an encoded member type is computed by a
  collaborator that is not among the sources either, so it is the parameter \<open>width\<close>.
  The specification expects no self-referential struct type and names no bound on the
  depth of nesting, so the number of tag lookups along one path is bounded by \<open>fuel\<close>:
  \<open>None\<close> means that the lookups did not end within it.
\<close>

fun encode ::
  "symbol_tablet \<Rightarrow> (typet \<Rightarrow> nat) \<Rightarrow> nat \<Rightarrow> typet \<Rightarrow> (errort + typet) option"
where
  "encode ns width fuel (array_typet T N) =
     (case encode ns width fuel T of
        None \<Rightarrow> None
      | Some (Inl e) \<Rightarrow> Some (Inl e)
      | Some (Inr T') \<Rightarrow> Some (Inr (array_typet T' N)))"
| "encode ns width 0 (struct_tag_typet tag) = None"
| "encode ns width (Suc fuel) (struct_tag_typet tag) =
     (case follow_tag ns tag of
        None \<Rightarrow> Some (Inl InputInconsistencyError)
      | Some cs \<Rightarrow>
          (case sum_member_widths width (map (\<lambda>c. encode ns width fuel (comp_type c)) cs) of
             None \<Rightarrow> None
           | Some (Inl e) \<Rightarrow> Some (Inl e)
           | Some (Inr n) \<Rightarrow> Some (Inr (bv_typet n))))"
| "encode ns width fuel t = Some (Inr t)"

text \<open>The width of a bit-vector type is the one it is built with.\<close>

fun bitvector_width :: "typet \<Rightarrow> nat" where
  "bitvector_width (signedbv_typet n) = n"
| "bitvector_width (unsignedbv_typet n) = n"
| "bitvector_width (bv_typet n) = n"
| "bitvector_width _ = 0"

text \<open>
  A type is flat when no struct or union occurs in it: a scalar, a bit-vector, or an
  array of flat elements.
\<close>

fun is_flat :: "typet \<Rightarrow> bool" where
  "is_flat (struct_tag_typet _) = False"
| "is_flat (struct_typet _ _ _) = False"
| "is_flat (union_typet _ _ _) = False"
| "is_flat (array_typet T _) = is_flat T"
| "is_flat _ = True"

text \<open>Arrays nested to any depth: the sizes are listed from the outermost inwards.\<close>

fun nested_array :: "exprt list \<Rightarrow> typet \<Rightarrow> typet" where
  "nested_array [] T = T"
| "nested_array (N # Ns) T = array_typet (nested_array Ns T) N"

text \<open>The struct tags that encoding a type looks up directly.\<close>

fun tags_of :: "typet \<Rightarrow> irep_idt list" where
  "tags_of (struct_tag_typet tag) = [tag]"
| "tags_of (array_typet T _) = tags_of T"
| "tags_of _ = []"

text \<open>The environment of the unit tests.\<close>

definition from_integer :: "irep_idt \<Rightarrow> typet \<Rightarrow> exprt" where
  "from_integer v t = constant_exprt v t"

definition my_structt :: symbolt where
  "my_structt =
     \<lparr>name = ''my_structt'',
      type = struct_typet False
               [componentt ''foo'' (unsignedbv_typet 8) False False,
                componentt ''bar'' (signedbv_typet 16) False False] []\<rparr>"

definition test_symbol_table :: symbol_tablet where
  "test_symbol_table = [(''my_structt'', my_structt)]"

section \<open>Property registry and property decider\<close>

text \<open>
  Modelled from the spec: the declarations of the property registry and of the equation
  (properties.h, symex_target_equation.h) are not among the sources. By section 3 of the
  specification the registry maps a property identifier to its status, one of
  NOT_CHECKED, UNKNOWN, PASS, FAIL and ERROR; it calls the last three terminal.
\<close>

datatype property_statust = NOT_CHECKED | UNKNOWN | PASS | FAIL | ERROR

type_synonym propertiest = "(irep_idt \<times> property_statust) list"


text \<open>
  Modelled from the spec: the equation is the ordered sequence of steps of section 3 of
  the specification, each with its kind, guard, payload, source location, property
  identifier (of an ASSERT step) and mark of being ignored. A payload is trivially true
  when it is the constant true.
\<close>

datatype step_kindt =
  ASSIGNMENT | ASSUME | ASSERT | SHARED_READ | SHARED_WRITE | FUNCTION_ENTRY | FUNCTION_EXIT

record stept =
  kind :: step_kindt
  guard :: exprt
  payload :: exprt
  source_location :: string
  property_id :: irep_idt
  ignored :: bool

type_synonym symex_target_equationt = "stept list"

definition true_exprt :: exprt where
  "true_exprt = constant_exprt ''true'' bool_typet"

definition is_true :: "exprt \<Rightarrow> bool" where
  "is_true e \<longleftrightarrow> e = true_exprt"


definition has_constant_true_assertion :: "symex_target_equationt \<Rightarrow> irep_idt \<Rightarrow> bool" where
  "has_constant_true_assertion equation pid \<longleftrightarrow>
     list_ex (\<lambda>step. kind step = ASSERT \<and> property_id step = pid \<and> is_true (payload step))
       equation"

text \<open>
  Every function below walks over the registry, gives each property its new status and
  adds the identifiers of the properties it changed to \<^verbatim>\<open>updated_properties\<close>.
\<close>

definition update_status ::
  "(irep_idt \<Rightarrow> property_statust \<Rightarrow> property_statust) \<Rightarrow> propertiest \<Rightarrow> irep_idt set \<Rightarrow>
   propertiest \<times> irep_idt set"
where
  "update_status f properties updated_properties =
     (map (\<lambda>(pid, status). (pid, f pid status)) properties,
      updated_properties \<union>
        set (map fst (filter (\<lambda>(pid, status). f pid status \<noteq> status) properties)))"

text \<open>
  Modelled from the spec: the body of
  \<^verbatim>\<open>update_properties_status_from_symex_target_equation\<close> (bmc_util.cpp) is not among
  the sources; its declaration is, and the model follows the contract documented there:
  it "sets property status to PASS for properties whose conditions are constant true in
  the equation". The declaration puts no condition on the status the property had, and
  the function takes the registry and the equation only, no decision procedure.
\<close>

definition update_properties_status_from_symex_target_equation ::
  "propertiest \<Rightarrow> irep_idt set \<Rightarrow> symex_target_equationt \<Rightarrow> propertiest \<times> irep_idt set"
where
  "update_properties_status_from_symex_target_equation properties updated_properties equation =
     update_status
       (\<lambda>pid status. if has_constant_true_assertion equation pid then PASS else status)
       properties updated_properties"




text \<open>
  Modelled from the spec: the decision procedure is an external collaborator. By section
  6 of the specification a check answers SAT, UNSAT or ERROR (which includes a timeout),
  and with SAT there is a satisfying model; by section 4.4 one conjecture is submitted
  per property, so the procedure is a function of the property identifier.
\<close>

datatype 'm solver_resultt = SAT 'm | UNSAT | SOLVER_ERROR

type_synonym 'm decision_proceduret = "irep_idt \<Rightarrow> 'm solver_resultt"

fun verdict :: "bool \<Rightarrow> 'm solver_resultt \<Rightarrow> property_statust" where
  "verdict set_pass (SAT m) = FAIL"
| "verdict set_pass UNSAT = (if set_pass then PASS else UNKNOWN)"
| "verdict set_pass SOLVER_ERROR = ERROR"

record 'm resultt =
  properties :: propertiest
  updated_properties :: "irep_idt set"
  models :: "(irep_idt \<times> 'm) list"

fun retained_models :: "'m decision_proceduret \<Rightarrow> propertiest \<Rightarrow> (irep_idt \<times> 'm) list" where
  "retained_models solve [] = []"
| "retained_models solve ((pid, status) # rest) =
     (if status = UNKNOWN
      then (case solve pid of
              SAT m \<Rightarrow> (pid, m) # retained_models solve rest
            | _ \<Rightarrow> retained_models solve rest)
      else retained_models solve rest)"

text \<open>
  Modelled from the spec: the body of \<^verbatim>\<open>run_property_decider\<close> (bmc_util.cpp) is not
  among the sources; its declaration is. By section 4.4 of the specification one
  conjecture is submitted per property that is still UNKNOWN: if it is satisfiable the
  property is FAIL and the model is retained, if it is unsatisfiable the property is PASS,
  if the solver fails the property is ERROR. By the declaration, an unsatisfiable result
  updates UNKNOWN properties to PASS if \<^verbatim>\<open>set_pass\<close> is true (its default). The elapsed
  solver time is not modelled.
\<close>

definition run_property_decider ::
  "propertiest \<Rightarrow> irep_idt set \<Rightarrow> 'm decision_proceduret \<Rightarrow> bool \<Rightarrow> 'm resultt"
where
  "run_property_decider props updated solve set_pass =
     (case update_status
             (\<lambda>pid status. if status = UNKNOWN then verdict set_pass (solve pid) else status)
             props updated of
        (props', updated') \<Rightarrow>
          \<lparr>properties = props', updated_properties = updated',
           models = retained_models solve props\<rparr>)"






text \<open>
  A decision procedure that fails on \<open>''p''\<close>, finds a model for the conjecture of
  \<open>''q''\<close> and refutes every other conjecture.
\<close>

definition example_solver :: "string decision_proceduret" where
  "example_solver pid =
     (if pid = ''p'' then SOLVER_ERROR
      else if pid = ''q'' then SAT ''x = 1''
      else UNSAT)"

definition example_properties :: propertiest where
  "example_properties = [(''p'', UNKNOWN), (''q'', UNKNOWN), (''r'', UNKNOWN), (''s'', PASS)]"

section \<open>Proofs: \<^verbatim>\<open>clean_up\<close>\<close>

lemma split_components_filter:
  "split_components cs dm fm =
     (dm @ filter is_data_member cs, fm @ filter is_function_member cs)"
  by (induction cs arbitrary: dm fm) (auto simp: is_data_member_def is_function_member_def)

lemma remove_methods_components:
  "components (remove_methods t) = filter is_data_member (components t)"
  by (cases t) (auto simp: split_components_filter)

lemma remove_methods_methods:
  "methods (remove_methods t) = methods t @ filter is_function_member (components t)"
  by (cases t) (auto simp: split_components_filter)

lemma remove_methods_type_id: "type_id (remove_methods t) = type_id t"
  by (cases t) (auto simp: split_components_filter)

lemma remove_methods_is_template: "is_template (remove_methods t) = is_template t"
  by (cases t) (auto simp: split_components_filter)

text \<open>The loop over the symbol table keeps the survivors, in order, each one cleaned.\<close>

lemma clean_up_map_filter:
  "clean_up deferred table =
     map (\<lambda>(key, symbol). (key, clean_symbol symbol))
       (filter (\<lambda>(key, symbol). survives deferred symbol) table)"
  by (induction table) (auto simp: survives_def clean_symbol_def)

lemma clean_up_keeps_survivors:
  assumes "(key, original) \<in> set table" and "survives deferred original"
  shows "(key, clean_symbol original) \<in> set (clean_up deferred table)"
  using assms by (force simp: clean_up_map_filter)

text \<open>
  No component is lost: the components that are neither static nor types are exactly the
  data members and the function members together.
\<close>

lemma split_is_partition:
  "mset (filter (\<lambda>c. \<not> is_static c \<and> \<not> is_type c) cs) =
     mset (filter is_data_member cs) + mset (filter is_function_member cs)"
  by (induction cs) (auto simp: is_data_member_def is_function_member_def)

text \<open>
  Claim C9, as amended. Every struct or union symbol in the table after
  \<^verbatim>\<open>clean_up\<close> comes from a symbol of the table before it, under the same key, that
  is no template and whose checking was not deferred. Its components are exactly the
  original components that are not static, not types and not of code type, in their
  original order. Its methods are the methods the type already had, followed by exactly
  the original components that are not static, not types and of code type, in their
  original order: so they are exactly those components when the type had no methods
  before.
\<close>

theorem clean_up_splits_components:
  assumes "(key, symbol) \<in> set (clean_up deferred table)"
    and "type_id (type symbol) = ID_struct \<or> type_id (type symbol) = ID_union"
  shows "\<exists>original. (key, original) \<in> set table \<and> survives deferred original \<and>
           name symbol = name original \<and>
           type_id (type symbol) = type_id (type original) \<and>
           components (type symbol) = filter is_data_member (components (type original)) \<and>
           methods (type symbol) =
             methods (type original) @ filter is_function_member (components (type original))"
proof -
  from assms(1) obtain original where o: "(key, original) \<in> set table"
    "survives deferred original" "symbol = clean_symbol original"
    by (auto simp: clean_up_map_filter)
  show ?thesis
  proof (cases "type_id (type original) = ID_struct \<or> type_id (type original) = ID_union")
    case True
    then have "symbol = original\<lparr>type := remove_methods (type original)\<rparr>"
      using o(3) by (simp add: clean_symbol_def)
    then show ?thesis using o(1,2)
      by (auto simp: remove_methods_components remove_methods_methods remove_methods_type_id)
  next
    case False
    then have "symbol = original" using o(3) by (simp add: clean_symbol_def)
    with assms(2) False show ?thesis by simp
  qed
qed

lemma clean_up_example_class:
  "clean_up {} [(''S'', example_class)] = [(''S'', cleaned_class)]"
  by (simp add: example_class_def cleaned_class_def ID_struct_def ID_union_def ID_code_def)

theorem clean_up_splits_components_witness:
  "(''S'', cleaned_class) \<in> set (clean_up {} [(''S'', example_class)]) \<and>
   (type_id (type cleaned_class) = ID_struct \<or> type_id (type cleaned_class) = ID_union) \<and>
   (\<exists>original. (''S'', original) \<in> set [(''S'', example_class)] \<and> survives {} original \<and>
      name cleaned_class = name original \<and>
      type_id (type cleaned_class) = type_id (type original) \<and>
      components (type cleaned_class) = filter is_data_member (components (type original)) \<and>
      methods (type cleaned_class) =
        methods (type original) @ filter is_function_member (components (type original)))"
proof -
  have h1: "(''S'', cleaned_class) \<in> set (clean_up {} [(''S'', example_class)])"
    unfolding clean_up_example_class by simp
  have h2: "type_id (type cleaned_class) = ID_struct \<or> type_id (type cleaned_class) = ID_union"
    by (simp add: cleaned_class_def)
  from clean_up_splits_components [OF h1 h2] h1 h2 show ?thesis by blast
qed

text \<open>
  The claim as stated fails for a type that has methods already, such as a class that
  \<^verbatim>\<open>clean_up\<close> has cleaned before: its methods are kept, although none of its
  components is of code type any more.
\<close>

theorem clean_up_methods_counterexample:
  "clean_up {} [(''S'', cleaned_class)] = [(''S'', cleaned_class)] \<and>
   methods (type cleaned_class) \<noteq>
     filter is_function_member (components (type cleaned_class))"
  by (simp add: cleaned_class_def ID_struct_def ID_union_def ID_code_def
        is_function_member_def)

section \<open>Proofs: property registry\<close>


lemma keys_update_status:
  "map fst (fst (update_status f props upd)) = map fst props"
  by (induction props) (auto simp: update_status_def)





lemma retained_models_only:
  assumes "(p, m) \<in> set (retained_models solve props)"
  shows "(p, UNKNOWN) \<in> set props \<and> solve p = SAT m"
  using assms by (induction solve props rule: retained_models.induct)
    (auto split: solver_resultt.splits if_splits)














text \<open>The registry keeps its properties, in their order.\<close>

lemma shortcut_keeps_properties:
  "map fst (fst (update_properties_status_from_symex_target_equation props updated equation)) =
     map fst props"
  by (simp add: update_properties_status_from_symex_target_equation_def keys_update_status)





lemma run_example_solver:
  "properties (run_property_decider example_properties {} example_solver True) =
     [(''p'', ERROR), (''q'', FAIL), (''r'', PASS), (''s'', PASS)]"
  "models (run_property_decider example_properties {} example_solver True) =
     [(''q'', ''x = 1'')]"
  "updated_properties (run_property_decider example_properties {} example_solver True) =
     {''p'', ''q'', ''r''}"
  by (auto simp: run_property_decider_def update_status_def example_properties_def
        example_solver_def)



section \<open>Proofs: instruction code\<close>

lemma DATA_CHECK_passes: "DATA_CHECK vm condition message = Inr () \<longleftrightarrow> condition"
  by (cases vm) (simp_all add: DATA_CHECK_def)

lemma code_assignt_check_passes:
  "code_assignt_check code vm = Inr () \<longleftrightarrow> length (operands code) = 2"
  by (simp add: code_assignt_check_def DATA_CHECK_passes)

lemma code_assignt_has_two_operands:
  "length (operands (code_assignt lhs rhs)) = 2"
  "length (operands code_assignt_default) = 2"
  by (simp_all add: code_assignt_def code_assignt_default_def)

text \<open>
  Claim C8. Validation of an assignment passes exactly when the instruction has two
  operands and the types of the first (the left-hand side) and of the second (the
  right-hand side) are equal; otherwise it fails, in either validation mode. So every
  assignment that has passed validation has exactly two operands of equal type.
\<close>

theorem code_assignt_validate_iff:
  "code_assignt_validate code ns vm = Inr () \<longleftrightarrow>
     length (operands code) = 2 \<and>
     expr_type (operands code ! 0) = expr_type (operands code ! 1)"
proof (cases "length (operands code) = 2")
  case True
  then have "code_assignt_check code vm = Inr ()" by (simp add: code_assignt_check_passes)
  with True show ?thesis by (simp add: code_assignt_validate_def DATA_CHECK_passes)
next
  case False
  then obtain e where "code_assignt_check code vm = Inl e"
    by (cases "code_assignt_check code vm") (auto simp: code_assignt_check_passes)
  with False show ?thesis by (simp add: code_assignt_validate_def)
qed

theorem code_assignt_validate_iff_witness:
  "code_assignt_validate
     (code_assignt (symbol_exprt ''x'' (signedbv_typet 32))
        (constant_exprt ''5'' (signedbv_typet 32))) [] INVARIANT = Inr () \<and>
   code_assignt_validate
     (code_assignt (symbol_exprt ''x'' (signedbv_typet 32))
        (constant_exprt ''5'' (unsignedbv_typet 32))) [] EXCEPTION \<noteq> Inr () \<and>
   code_assignt_validate
     (codet ID_assign [symbol_exprt ''x'' (signedbv_typet 32)]) [] EXCEPTION \<noteq> Inr ()"
  by (simp add: code_assignt_validate_iff code_assignt_def)

lemma code_assignt_validate_errors:
  "code_assignt_validate (codet ID_assign [symbol_exprt ''x'' bool_typet]) [] EXCEPTION =
     Inl (incorrect_goto_program_exception ''assignment must have two operands'')"
  "code_assignt_validate
     (code_assignt (symbol_exprt ''x'' bool_typet) (constant_exprt ''5'' (signedbv_typet 32)))
     [] INVARIANT =
     Inl (invariant_violation ''lhs and rhs of assignment must have same type'')"
  by (simp_all add: code_assignt_validate_def code_assignt_check_def DATA_CHECK_def
        code_assignt_def)

section \<open>Proofs: \<^verbatim>\<open>struct_abstract_objectt\<close>\<close>

text \<open>
  Claim C10, as amended. Each of the three constructors that take a type, or a constant
  expression, succeeds exactly when that type, or the type of the expression, is a
  struct type and, for the constructor that takes top and bottom, these are not both
  true; for any other type the construction fails. An object that was constructed has a
  struct type.
\<close>

theorem struct_abstract_objectt_requires_struct:
  "((\<exists>obj. struct_abstract_objectt_of_type t = Inr obj) \<longleftrightarrow> type_id t = ID_struct) \<and>
   ((\<exists>obj. struct_abstract_objectt_of_type_top_bottom t tp bttm = Inr obj) \<longleftrightarrow>
      type_id t = ID_struct \<and> \<not> (tp \<and> bttm)) \<and>
   ((\<exists>obj. struct_abstract_objectt_of_expr e = Inr obj) \<longleftrightarrow>
      type_id (expr_type e) = ID_struct) \<and>
   (\<forall>obj. struct_abstract_objectt_of_type t = Inr obj \<or>
          struct_abstract_objectt_of_type_top_bottom t tp bttm = Inr obj \<or>
          struct_abstract_objectt_of_expr e = Inr obj \<longrightarrow>
          type_id (object_type obj) = ID_struct)"
  by (auto simp: struct_abstract_objectt_of_type_def
        struct_abstract_objectt_of_type_top_bottom_def abstract_objectt_type_top_bottom_def
        struct_abstract_objectt_of_expr_def split: if_splits)

theorem struct_abstract_objectt_requires_struct_witness:
  "struct_abstract_objectt_of_type (struct_typet False [] []) =
     Inr (abstract_object_of_type (struct_typet False [] [])) \<and>
   struct_abstract_objectt_of_type_top_bottom (struct_typet False [] []) True False =
     Inr (abstract_object_of_type_top_bottom (struct_typet False [] []) True False) \<and>
   struct_abstract_objectt_of_expr (constant_exprt ''0'' (struct_typet False [] [])) =
     Inr (abstract_object_of_expr (constant_exprt ''0'' (struct_typet False [] []))) \<and>
   (\<nexists>obj. struct_abstract_objectt_of_type (signedbv_typet 8) = Inr obj)"
  using struct_abstract_objectt_requires_struct
    [of "signedbv_typet 8" True False "constant_exprt ''0'' (struct_typet False [] [])"]
  by (simp add: struct_abstract_objectt_of_type_def
        struct_abstract_objectt_of_type_top_bottom_def abstract_objectt_type_top_bottom_def
        struct_abstract_objectt_of_expr_def ID_struct_def)

text \<open>
  The claim as stated fails for the constructor that takes top and bottom: with both
  true, a struct type does not make the construction succeed.
\<close>

theorem struct_abstract_objectt_top_bottom_counterexample:
  "type_id (struct_typet False [] []) = ID_struct \<and>
   struct_abstract_objectt_of_type_top_bottom (struct_typet False [] []) True True =
     Inl (assertion_failure ''!(top && bottom)'')"
  by (simp add: struct_abstract_objectt_of_type_top_bottom_def
        abstract_objectt_type_top_bottom_def)

text \<open>The copy constructor has no assertion and needs none.\<close>

lemma constructed_has_struct_type:
  "constructed obj \<Longrightarrow> type_id (object_type obj) = ID_struct"
  by (induction rule: constructed.induct)
    (auto simp: struct_abstract_objectt_of_type_def
       struct_abstract_objectt_of_type_top_bottom_def abstract_objectt_type_top_bottom_def
       struct_abstract_objectt_of_expr_def struct_abstract_objectt_copy_def split: if_splits)

section \<open>Proofs: type encoder\<close>

lemma sum_member_widths_all_encoded:
  "sum_member_widths width (map (\<lambda>t. Some (Inr t)) ts) = Some (Inr (sum_list (map width ts)))"
  by (induction ts) simp_all

text \<open>
  Claim C3. When a struct tag resolves to a member list and the member types encode to
  the types \<open>ts\<close>, whose widths are \<open>w1, ..., wn\<close>, then encoding the tag returns
  the single bit-vector type of width \<open>w1 + ... + wn\<close>.
\<close>

theorem struct_encoding_width:
  assumes "follow_tag ns tag = Some cs"
    and "map (\<lambda>c. encode ns width fuel (comp_type c)) cs = map (\<lambda>t. Some (Inr t)) ts"
  shows "encode ns width (Suc fuel) (struct_tag_typet tag) =
           Some (Inr (bv_typet (sum_list (map width ts))))"
  using assms by (simp add: sum_member_widths_all_encoded)

lemma follow_tag_my_structt:
  "follow_tag test_symbol_table ''my_structt'' =
     Some [componentt ''foo'' (unsignedbv_typet 8) False False,
           componentt ''bar'' (signedbv_typet 16) False False]"
  by (simp add: follow_tag_def test_symbol_table_def my_structt_def)

theorem struct_encoding_width_witness:
  "follow_tag test_symbol_table ''my_structt'' =
     Some [componentt ''foo'' (unsignedbv_typet 8) False False,
           componentt ''bar'' (signedbv_typet 16) False False] \<and>
   map (\<lambda>c. encode test_symbol_table bitvector_width 0 (comp_type c))
     [componentt ''foo'' (unsignedbv_typet 8) False False,
      componentt ''bar'' (signedbv_typet 16) False False] =
     map (\<lambda>t. Some (Inr t)) [unsignedbv_typet 8, signedbv_typet 16] \<and>
   encode test_symbol_table bitvector_width (Suc 0) (struct_tag_typet ''my_structt'') =
     Some (Inr (bv_typet 24))"
proof -
  have h2: "map (\<lambda>c. encode test_symbol_table bitvector_width 0 (comp_type c))
     [componentt ''foo'' (unsignedbv_typet 8) False False,
      componentt ''bar'' (signedbv_typet 16) False False] =
     map (\<lambda>t. Some (Inr t)) [unsignedbv_typet 8, signedbv_typet 16]"
    by simp
  from struct_encoding_width [OF follow_tag_my_structt h2] follow_tag_my_structt h2
  show ?thesis by simp
qed

lemma encode_array:
  "encode ns width fuel (array_typet T N) =
     map_option (map_sum (\<lambda>e. e) (\<lambda>T'. array_typet T' N)) (encode ns width fuel T)"
  by (simp split: option.splits sum.splits)

text \<open>
  Claim C4. Encoding an array type encodes the element type and puts the same size
  expression around the result (an error of the element type, or its not returning, is
  passed on); so encoding goes through arrays nested to any depth.
\<close>

theorem encode_distributes_over_arrays:
  "encode ns width fuel (array_typet T N) =
     map_option (map_sum (\<lambda>e. e) (\<lambda>T'. array_typet T' N)) (encode ns width fuel T) \<and>
   encode ns width fuel (nested_array Ns T) =
     map_option (map_sum (\<lambda>e. e) (nested_array Ns)) (encode ns width fuel T)"
proof
  show "encode ns width fuel (array_typet T N) =
     map_option (map_sum (\<lambda>e. e) (\<lambda>T'. array_typet T' N)) (encode ns width fuel T)"
    by (rule encode_array)
next
  show "encode ns width fuel (nested_array Ns T) =
     map_option (map_sum (\<lambda>e. e) (nested_array Ns)) (encode ns width fuel T)"
  proof (induction Ns)
    case Nil
    show ?case by (simp add: option.map_ident sum.map_ident)
  next
    case (Cons N Ns)
    show ?case
      by (simp add: encode_array Cons.IH option.map_comp sum.map_comp comp_def
            del: encode.simps)
  qed
qed

lemma encode_my_structt:
  "encode test_symbol_table bitvector_width (Suc fuel) (struct_tag_typet ''my_structt'') =
     Some (Inr (bv_typet 24))"
  by (simp add: follow_tag_my_structt)

theorem encode_distributes_over_arrays_witness:
  "encode test_symbol_table bitvector_width (Suc 0)
     (array_typet (struct_tag_typet ''my_structt'') (from_integer ''5'' (signedbv_typet 32))) =
     Some (Inr (array_typet (bv_typet 24) (from_integer ''5'' (signedbv_typet 32)))) \<and>
   encode test_symbol_table bitvector_width (Suc 0)
     (array_typet
        (array_typet (struct_tag_typet ''my_structt'') (from_integer ''4'' (signedbv_typet 32)))
        (from_integer ''2'' (signedbv_typet 32))) =
     Some (Inr (array_typet
                  (array_typet (bv_typet 24) (from_integer ''4'' (signedbv_typet 32)))
                  (from_integer ''2'' (signedbv_typet 32))))"
  using encode_distributes_over_arrays
    [of test_symbol_table bitvector_width "Suc 0" "struct_tag_typet ''my_structt''"
      "from_integer ''5'' (signedbv_typet 32)"
      "[from_integer ''2'' (signedbv_typet 32), from_integer ''4'' (signedbv_typet 32)]"]
  by (simp add: encode_my_structt del: encode.simps)

text \<open>
  Claim C5. Encoding a flat type (a scalar, a bit-vector, an array of flat elements: any
  type in which no struct occurs) returns the type unchanged.
\<close>

theorem encode_flat_is_identity:
  "is_flat t \<Longrightarrow> encode ns width fuel t = Some (Inr t)"
  by (induction ns width fuel t rule: encode.induct) simp_all

theorem encode_flat_is_identity_witness:
  "is_flat (signedbv_typet 8) \<and>
   encode [] bitvector_width 0 (signedbv_typet 8) = Some (Inr (signedbv_typet 8))"
proof -
  have h: "is_flat (signedbv_typet 8)" by simp
  from encode_flat_is_identity [OF h, of "[]" bitvector_width 0] h show ?thesis by blast
qed

text \<open>More fuel never changes a result.\<close>

lemma sum_member_widths_more:
  assumes "list_all2 (\<lambda>a b. a \<noteq> None \<longrightarrow> b = a) rs rs'"
    and "sum_member_widths width rs = Some r"
  shows "sum_member_widths width rs' = Some r"
  using assms
proof (induction arbitrary: r rule: list_all2_induct)
  case Nil
  then show ?case by simp
next
  case (Cons a rs b rs')
  show ?case
  proof (cases a)
    case None
    with Cons.prems show ?thesis by simp
  next
    case (Some x)
    with Cons.hyps have b: "b = Some x" by simp
    show ?thesis
    proof (cases x)
      case (Inl e)
      with Some b Cons.prems show ?thesis by simp
    next
      case (Inr t)
      with Some b Cons.prems Cons.IH show ?thesis
        by (auto split: option.splits sum.splits)
    qed
  qed
qed

lemma encode_more_fuel:
  "encode ns width fuel t = Some r \<Longrightarrow> encode ns width (Suc fuel) t = Some r"
proof (induction ns width fuel t arbitrary: r rule: encode.induct)
  case (1 ns width fuel T N)
  then show ?case by (auto split: option.splits sum.splits)
next
  case (2 ns width tag)
  then show ?case by simp
next
  case (3 ns width fuel tag)
  show ?case
  proof (cases "follow_tag ns tag")
    case None
    with 3 show ?thesis by simp
  next
    case (Some cs)
    have "list_all2 (\<lambda>a b. a \<noteq> None \<longrightarrow> b = a)
            (map (\<lambda>c. encode ns width fuel (comp_type c)) cs)
            (map (\<lambda>c. encode ns width (Suc fuel) (comp_type c)) cs)"
      using 3(1)[OF Some]
      by (auto simp: list_all2_map1 list_all2_map2 intro!: list_all2_same[THEN iffD2])
    then have "\<And>r. sum_member_widths width (map (\<lambda>c. encode ns width fuel (comp_type c)) cs) = Some r
      \<Longrightarrow> sum_member_widths width (map (\<lambda>c. encode ns width (Suc fuel) (comp_type c)) cs) = Some r"
      by (rule sum_member_widths_more)
    with 3(2) Some show ?thesis
      by (auto split: option.splits sum.splits)
  qed
qed simp_all

text \<open>
  Encoding returns when no struct type contains itself: if the tags can be ranked so that
  the tags a member list mentions rank below the tag of the list, then fuel above the
  rank of the tags of a type is enough.
\<close>

lemma sum_member_widths_returns:
  "\<forall>r \<in> set rs. r \<noteq> None \<Longrightarrow> sum_member_widths width rs \<noteq> None"
  by (induction width rs rule: sum_member_widths.induct) (auto split: option.splits sum.splits)

lemma encode_returns:
  assumes "\<forall>tag cs. follow_tag ns tag = Some cs \<longrightarrow>
             (\<forall>c \<in> set cs. \<forall>u \<in> set (tags_of (comp_type c)). rank u < (rank tag :: nat))"
    and "\<forall>u \<in> set (tags_of t). rank u < fuel"
  shows "encode ns width fuel t \<noteq> None"
  using assms
proof (induction ns width fuel t rule: encode.induct)
  case (1 ns width fuel T N)
  then show ?case by (auto split: option.splits sum.splits)
next
  case (2 ns width tag)
  then show ?case by simp
next
  case (3 ns width fuel tag)
  show ?case
  proof (cases "follow_tag ns tag")
    case None
    then show ?thesis by simp
  next
    case (Some cs)
    have "\<forall>r \<in> set (map (\<lambda>c. encode ns width fuel (comp_type c)) cs). r \<noteq> None"
    proof
      fix r assume "r \<in> set (map (\<lambda>c. encode ns width fuel (comp_type c)) cs)"
      then obtain c where c: "c \<in> set cs" and r: "r = encode ns width fuel (comp_type c)"
        by auto
      have "\<forall>u \<in> set (tags_of (comp_type c)). rank u < fuel"
      proof
        fix u assume "u \<in> set (tags_of (comp_type c))"
        then have "rank u < rank tag" using 3(2) Some c by blast
        moreover have "rank tag < Suc fuel" using 3(3) by simp
        ultimately show "rank u < fuel" by simp
      qed
      then show "r \<noteq> None"
        using 3(1)[OF Some c 3(2)] r by blast
    qed
    then have "sum_member_widths width (map (\<lambda>c. encode ns width fuel (comp_type c)) cs) \<noteq> None"
      by (rule sum_member_widths_returns)
    with Some show ?thesis by (auto split: option.splits sum.splits)
  qed
qed simp_all

text \<open>The unit tests of the encoder.\<close>

lemma test_non_struct_type_is_no_op:
  "encode [] bitvector_width fuel (signedbv_typet 8) = Some (Inr (signedbv_typet 8))"
  by simp

lemma test_direct_struct_tag_type_encoding:
  "encode test_symbol_table bitvector_width 1 (struct_tag_typet ''my_structt'') =
     Some (Inr (bv_typet 24))"
  by (simp add: follow_tag_my_structt)

end
